theory Spec2Isabelle
  imports Main
begin

section \<open>The OTC trade form (electron-app/src/components/OtcForm.vue)\<close>

text \<open>
  The component is a Vue class with two props (\<open>editMode\<close>, \<open>otcTrade\<close>), ten data
  fields, a watcher on \<open>otcTrade\<close> and two handlers (\<open>addTrade\<close>, \<open>cancel\<close>). The
  model is a record of the props and the fields, and one function per method, each taking
  the component and returning it updated together with the events it emits.
\<close>

subsection \<open>Data crossing the component boundary\<close>

text \<open>
  Modelled from the spec: the declarations of \<open>StoredTrade\<close> and \<open>TradePayload\<close> live in
  \<open>@/model/stored-trade\<close>, which is not part of the sources at hand. The fields are the
  ones the component reads and writes; amounts are opaque strings, the timestamp is a
  number of seconds, the direction is the string \<open>buy\<close> or \<open>sell\<close>. In the payload the
  identifier is \<open>undefined\<close> (here \<open>None\<close>) or a string, and the timestamp is whatever
  number the date library returns, \<open>None\<close> standing for its not-a-number result.
\<close>

record StoredTrade =
  st_trade_id :: string
  st_pair :: string
  st_timestamp :: int
  st_amount :: string
  st_rate :: string
  st_fee :: string
  st_fee_currency :: string
  st_link :: string
  st_notes :: string
  st_trade_type :: string

record TradePayload =
  tp_amount :: string
  tp_fee :: string
  tp_fee_currency :: string
  tp_link :: string
  tp_notes :: string
  tp_pair :: string
  tp_rate :: string
  tp_location :: string
  tp_timestamp :: "int option"
  tp_trade_type :: string
  tp_trade_id :: "string option"

text \<open>
  The date library (\<open>moment\<close>) is an external dependency. The component uses three of
  its entry points: \<open>moment(ms).format(f)\<close>, \<open>moment(s, f).unix()\<close> and \<open>moment()\<close>,
  the current moment. The first two are taken here as parameters. The clock is passed to
  each operation as \<open>now\<close>, in milliseconds; parsing receives it as well, because
  the library fills the date fields a string leaves out from the current date.
\<close>

record moment =
  format_ms :: "string \<Rightarrow> int \<Rightarrow> string"
  parse_unix :: "int \<Rightarrow> string \<Rightarrow> string \<Rightarrow> int option"

subsection \<open>The component\<close>

text \<open>
  Next to the two props the record keeps \<open>bound_otcTrade\<close>, the value the parent binds
  to the \<open>otcTrade\<close> prop (Vue holds it as the component's \<open>propsData\<close>). It can
  differ from the prop's own value, because the class assigns to the prop (line 107).
\<close>

record OtcForm =
  editMode :: bool
  bound_otcTrade :: "StoredTrade option"
  otcTrade :: "StoredTrade option"
  id_field :: string
  pair :: string
  datetime :: string
  amount :: string
  rate :: string
  fee :: string
  feeCurrency :: string
  link :: string
  notes_field :: string
  type_field :: string

text \<open>
  An event handler that is named in the template without a call, as \<open>@click="cancel"\<close>
  is, receives the DOM event as its argument.
\<close>

datatype dom_event = MouseEvent

text \<open>
  The two events the component emits. \<open>save\<close> carries the payload. \<open>cancel\<close> is
  emitted by the \<open>@Emit()\<close> decorator, which passes on the arguments the decorated
  method was called with when the method returns nothing.
\<close>

datatype event = Save TradePayload | Cancel "dom_event list"

definition OtcForm_format :: string where
  "OtcForm_format = ''DD/MM/YYYY HH:mm''"

text \<open>
  Instantiation. The parent binds \<open>em\<close> and \<open>tr\<close> to the props. Every data field takes
  its declared initial value, and the initialiser of line 107, \<open>otcTrade = null\<close>,
  assigns to the prop, so the prop is null after creation whatever the parent bound. The
  watcher is registered without \<open>immediate\<close> and does not run here.
\<close>

definition create :: "bool \<Rightarrow> StoredTrade option \<Rightarrow> OtcForm" where
  "create em tr =
     \<lparr> editMode = em, bound_otcTrade = tr, otcTrade = None,
       id_field = '''', pair = '''', datetime = '''', amount = '''', rate = '''',
       fee = '''', feeCurrency = '''', link = '''', notes_field = '''', type_field = ''buy'' \<rparr>"

definition updateFields :: "moment \<Rightarrow> StoredTrade \<Rightarrow> OtcForm \<Rightarrow> OtcForm" where
  "updateFields M trade c =
     c\<lparr> pair := st_pair trade,
        datetime := format_ms M OtcForm_format (st_timestamp trade * 1000),
        amount := st_amount trade,
        rate := st_rate trade,
        fee := st_fee trade,
        feeCurrency := st_fee_currency trade,
        link := st_link trade,
        notes_field := st_notes trade,
        type_field := st_trade_type trade,
        id_field := st_trade_id trade \<rparr>"

definition resetFields :: "moment \<Rightarrow> int \<Rightarrow> OtcForm \<Rightarrow> OtcForm" where
  "resetFields M now c =
     c\<lparr> id_field := '''',
        pair := '''',
        datetime := format_ms M OtcForm_format now,
        amount := '''',
        rate := '''',
        fee := '''',
        feeCurrency := '''',
        link := '''',
        notes_field := '''',
        type_field := ''buy'' \<rparr>"

definition onTradeChange :: "moment \<Rightarrow> int \<Rightarrow> OtcForm \<Rightarrow> OtcForm" where
  "onTradeChange M now c =
     (case otcTrade c of
        None \<Rightarrow> resetFields M now c
      | Some trade \<Rightarrow> updateFields M trade c)"

definition payload :: "moment \<Rightarrow> int \<Rightarrow> OtcForm \<Rightarrow> TradePayload" where
  "payload M now c =
     \<lparr> tp_amount = amount c,
       tp_fee = fee c,
       tp_fee_currency = feeCurrency c,
       tp_link = link c,
       tp_notes = notes_field c,
       tp_pair = pair c,
       tp_rate = rate c,
       tp_location = ''external'',
       tp_timestamp = parse_unix M now (datetime c) OtcForm_format,
       tp_trade_type = type_field c,
       tp_trade_id = (if editMode c then Some (id_field c) else None) \<rparr>"

definition addTrade :: "moment \<Rightarrow> int \<Rightarrow> OtcForm \<Rightarrow> OtcForm \<times> event list" where
  "addTrade M now c = (c, [Save (payload M now c)])"

text \<open>
  \<open>cancel\<close> resets the fields and returns nothing, so the decorator emits \<open>cancel\<close>
  with the arguments of the call, \<open>args\<close>.
\<close>

definition cancel :: "moment \<Rightarrow> int \<Rightarrow> dom_event list \<Rightarrow> OtcForm \<Rightarrow> OtcForm \<times> event list" where
  "cancel M now args c = (resetFields M now c, [Cancel args])"

subsection \<open>The component in use\<close>

text \<open>
  The template binds nine fields to inputs with \<open>v-model\<close>; the identifier has no
  input. The button of line 72 calls \<open>addTrade()\<close>; the button of line 81 names
  \<open>cancel\<close> as its handler, which is therefore called with the click's event.

  The parent acts by rendering the component again with its bindings. Vue then assigns
  each bound value to its prop, and a prop whose value changes runs its watchers.
  \<open>SetOtcTrade\<close> stands for a render in which the parent binds a new record value and
  the \<open>otcTrade\<close> prop changes to it, which is what runs the watcher. \<open>SetEditMode\<close>
  stands for a render with the record binding as it was: the prop is assigned the bound
  value again, and the watcher runs if that changes the prop, as it does when the prop is
  still the null of line 107 and a record is bound. Each action is paired with the clock
  reading at the time it happens.
\<close>

datatype input_field =
  F_datetime | F_pair | F_type | F_amount | F_rate | F_fee | F_feeCurrency | F_link | F_notes

datatype action =
    SetOtcTrade "StoredTrade option"
  | SetEditMode bool
  | Input input_field string
  | ClickSubmit
  | ClickCancel

fun input :: "input_field \<Rightarrow> string \<Rightarrow> OtcForm \<Rightarrow> OtcForm" where
  "input F_datetime v c = c\<lparr> datetime := v \<rparr>"
| "input F_pair v c = c\<lparr> pair := v \<rparr>"
| "input F_type v c = c\<lparr> type_field := v \<rparr>"
| "input F_amount v c = c\<lparr> amount := v \<rparr>"
| "input F_rate v c = c\<lparr> rate := v \<rparr>"
| "input F_fee v c = c\<lparr> fee := v \<rparr>"
| "input F_feeCurrency v c = c\<lparr> feeCurrency := v \<rparr>"
| "input F_link v c = c\<lparr> link := v \<rparr>"
| "input F_notes v c = c\<lparr> notes_field := v \<rparr>"

definition reapply_props :: "moment \<Rightarrow> int \<Rightarrow> OtcForm \<Rightarrow> OtcForm" where
  "reapply_props M now c =
     (if otcTrade c = bound_otcTrade c then c
      else onTradeChange M now (c\<lparr> otcTrade := bound_otcTrade c \<rparr>))"

fun step :: "moment \<Rightarrow> int \<Rightarrow> action \<Rightarrow> OtcForm \<Rightarrow> OtcForm \<times> event list" where
  "step M now (SetOtcTrade tr) c =
     (onTradeChange M now (c\<lparr> bound_otcTrade := tr, otcTrade := tr \<rparr>), [])"
| "step M now (SetEditMode b) c = (reapply_props M now (c\<lparr> editMode := b \<rparr>), [])"
| "step M now (Input f v) c = (input f v c, [])"
| "step M now ClickSubmit c = addTrade M now c"
| "step M now ClickCancel c = cancel M now [MouseEvent] c"

fun run :: "moment \<Rightarrow> (int \<times> action) list \<Rightarrow> OtcForm \<Rightarrow> OtcForm \<times> event list" where
  "run M [] c = (c, [])"
| "run M ((now, a) # rest) c =
     (case step M now a c of
        (c', es) \<Rightarrow> (case run M rest c' of (c'', es') \<Rightarrow> (c'', es @ es')))"

text \<open>
  The direction is one of two strings. The radio group offers exactly these two, and the
  type of a stored trade admits no other; an action is well-formed when it respects that,
  and so is a record bound at instantiation.
\<close>

definition is_trade_type :: "string \<Rightarrow> bool" where
  "is_trade_type s = (s = ''buy'' \<or> s = ''sell'')"

fun wf_action :: "action \<Rightarrow> bool" where
  "wf_action (SetOtcTrade (Some trade)) = is_trade_type (st_trade_type trade)"
| "wf_action (Input F_type v) = is_trade_type v"
| "wf_action _ = True"

fun wf_bound :: "StoredTrade option \<Rightarrow> bool" where
  "wf_bound None = True"
| "wf_bound (Some trade) = is_trade_type (st_trade_type trade)"

text \<open>
  The identifier a sequence of actions leaves in the form, read off the actions alone.
  \<open>waiting\<close> is the record bound at instantiation as long as no render has applied it;
  \<open>ident\<close> is the identifier so far: that of the record applied last, or the empty
  string when the fields were reset after it (by \<open>cancel\<close> or by a change to no
  record) or no record has been applied yet.
\<close>

fun carried_from :: "StoredTrade option \<Rightarrow> string \<Rightarrow> action list \<Rightarrow> string" where
  "carried_from waiting ident [] = ident"
| "carried_from waiting ident (SetOtcTrade (Some trade) # later) =
     carried_from None (st_trade_id trade) later"
| "carried_from waiting ident (SetOtcTrade None # later) = carried_from None '''' later"
| "carried_from (Some trade) ident (SetEditMode b # later) =
     carried_from None (st_trade_id trade) later"
| "carried_from None ident (SetEditMode b # later) = carried_from None ident later"
| "carried_from waiting ident (ClickCancel # later) = carried_from waiting '''' later"
| "carried_from waiting ident (a # later) = carried_from waiting ident later"

definition carried_id :: "StoredTrade option \<Rightarrow> (int \<times> action) list \<Rightarrow> string" where
  "carried_id tr acts = carried_from tr '''' (map snd acts)"

text \<open>
  What the bookkeeping of \<open>carried_from\<close> means for a component: the identifier field
  is \<open>ident\<close>, and the prop is the bound value, unless a record bound at instantiation
  is still waiting behind the null of line 107.
\<close>

definition agrees :: "OtcForm \<Rightarrow> StoredTrade option \<Rightarrow> string \<Rightarrow> bool" where
  "agrees c waiting ident =
     (id_field c = ident \<and>
      (case waiting of
         None \<Rightarrow> otcTrade c = bound_otcTrade c
       | Some trade \<Rightarrow> otcTrade c = None \<and> bound_otcTrade c = Some trade))"

section \<open>The date library\<close>

text \<open>
  Modelled from the spec: \<open>moment\<close> is a third-party library and its code is not part
  of the sources. The spec fixes what the component needs of it: a display format
  "day/month/year hour:minute" written \<open>DD/MM/YYYY HH:mm\<close>, a conversion from a
  timestamp to that string and back, and the library's default local-time reading of
  both. The model below is the proleptic Gregorian calendar, read in a time zone given by
  its UTC offsets and clock changes. Formatting pads each field with zeros to the width of
  its token. Parsing is the library's forgiving kind: each field token takes the next run
  of digits, up to its width, wherever it starts; a separator is looked for and skipped
  over if it is there; fields the string leaves out are filled from the current date or
  with their first value; and the result is invalid (\<open>None\<close>) when no field was found
  or a field is out of range.
\<close>

subsection \<open>Days and dates\<close>

definition is_leap :: "int \<Rightarrow> bool" where
  "is_leap y = (y mod 4 = 0 \<and> (y mod 100 = 0 \<longrightarrow> y mod 400 = 0))"

definition days_in_month :: "int \<Rightarrow> int \<Rightarrow> int" where
  "days_in_month y m =
     (if m = 2 then (if is_leap y then 29 else 28)
      else if m = 4 \<or> m = 6 \<or> m = 9 \<or> m = 11 then 30 else 31)"

text \<open>
  Both conversions count years from 1 March, so that the leap day is the last day of the
  year, and split the day number into 400-year eras of 146097 days. Day 0 is 1 January
  1970.
\<close>

definition days_before_year :: "int \<Rightarrow> int" where
  "days_before_year y = 365 * y + y div 4 - y div 100"

definition days_from_civil :: "int \<Rightarrow> int \<Rightarrow> int \<Rightarrow> int" where
  "days_from_civil y m d =
     (let y' = (if m \<le> 2 then y - 1 else y);
          era = y' div 400;
          yoe = y' mod 400;
          mp = (if m > 2 then m - 3 else m + 9);
          doy = (153 * mp + 2) div 5 + d - 1;
          doe = days_before_year yoe + doy
      in era * 146097 + doe - 719468)"

definition civil_from_days :: "int \<Rightarrow> int \<times> int \<times> int" where
  "civil_from_days z =
     (let z' = z + 719468;
          era = z' div 146097;
          doe = z' mod 146097;
          cent = min (doe div 36524) 3;
          doc = doe - cent * 36524;
          quad = doc div 1461;
          doq = doc mod 1461;
          yoq = min (doq div 365) 3;
          doy = doq - yoq * 365;
          yoe = cent * 100 + quad * 4 + yoq;
          mp = (5 * doy + 2) div 153;
          d = doy - (153 * mp + 2) div 5 + 1;
          m = (if mp < 10 then mp + 3 else mp - 9);
          y = yoe + era * 400 + (if m \<le> 2 then 1 else 0)
      in (y, m, d))"

text \<open>The length of a month in terms of the day of the March-based year (for the proofs).\<close>

definition month_len :: "int \<Rightarrow> int \<Rightarrow> int" where
  "month_len doy m =
     (if m = 2 then (if doy = 365 then 29 else 28)
      else if m = 4 \<or> m = 6 \<or> m = 9 \<or> m = 11 then 30 else 31)"

subsection \<open>Time zones\<close>

text \<open>
  A zone is its offset from UTC, in seconds east, before its first clock change, and the
  list of its clock changes in the order they happen: the UTC second of the change and the
  offset from then on.
\<close>

record zone =
  base_offset :: int
  changes :: "(int \<times> int) list"

fun offset_from :: "int \<Rightarrow> (int \<times> int) list \<Rightarrow> int \<Rightarrow> int" where
  "offset_from off [] u = off"
| "offset_from off ((t, off') # later) u = (if t \<le> u then offset_from off' later u else off)"

definition offset_at :: "zone \<Rightarrow> int \<Rightarrow> int" where
  "offset_at z u = offset_from (base_offset z) (changes z) u"

text \<open>
  From a local time back to UTC. A local time that a clock change repeats or skips is
  read with the offset in force before the change. So of a repeated local time the
  earlier instant is taken.
\<close>

fun utc_from_local :: "int \<Rightarrow> (int \<times> int) list \<Rightarrow> int \<Rightarrow> int" where
  "utc_from_local off [] l = l - off"
| "utc_from_local off ((t, off') # later) l =
     (if l < t + max off off' then l - off else utc_from_local off' later l)"

definition utc_of_local :: "zone \<Rightarrow> int \<Rightarrow> int" where
  "utc_of_local z l = utc_from_local (base_offset z) (changes z) l"

text \<open>
  The instant \<open>u\<close> shows a local time for the second time: it comes after a change that
  put the clock back, and the time it shows was reached before that change already.
\<close>

fun repeated_from :: "int \<Rightarrow> (int \<times> int) list \<Rightarrow> int \<Rightarrow> bool" where
  "repeated_from off [] u = False"
| "repeated_from off ((t, off') # later) u =
     (t \<le> u \<and> (u + offset_from off' later u < t + off \<or> repeated_from off' later u))"

definition repeats :: "zone \<Rightarrow> int \<Rightarrow> bool" where
  "repeats z u = repeated_from (base_offset z) (changes z) u"

text \<open>
  An ordinary zone: no offset is more than a day, and two clock changes in a row lie
  further apart than they move the clock.
\<close>

fun regular_from :: "int \<Rightarrow> (int \<times> int) list \<Rightarrow> bool" where
  "regular_from off [] = (\<bar>off\<bar> \<le> 86400)"
| "regular_from off ((t, off') # later) =
     (\<bar>off\<bar> \<le> 86400 \<and>
      (case later of [] \<Rightarrow> True | (t2, off2) # _ \<Rightarrow> t + max off off' \<le> t2 + min off' off2) \<and>
      regular_from off' later)"

definition regular :: "zone \<Rightarrow> bool" where
  "regular z = regular_from (base_offset z) (changes z)"

definition utc :: zone where
  "utc = \<lparr> base_offset = 0, changes = [] \<rparr>"

text \<open>
  Central European time around 2020: one hour east of UTC, two hours from 29 March 2020
  01:00 UTC, one hour again from 25 October 2020 01:00 UTC.
\<close>

definition berlin_2020 :: zone where
  "berlin_2020 = \<lparr> base_offset = 3600, changes = [(1585443600, 7200), (1603587600, 3600)] \<rparr>"

text \<open>
  Berlin around 1890: local mean time, 53 minutes and 28 seconds east of UTC, until
  1 April 1893 00:00 of that time, one hour from then on.
\<close>

definition berlin_1890 :: zone where
  "berlin_1890 = \<lparr> base_offset = 3208, changes = [(- 2422054408, 3600)] \<rparr>"

subsection \<open>Format strings\<close>

text \<open>
  A format string is cut into tokens. Only the five tokens of the component's format are
  recognised; every other character stands for itself, as \<open>/\<close>, the blank and \<open>:\<close>
  do.
\<close>

datatype token = T_DD | T_MM | T_YYYY | T_HH | T_mm | Lit char

fun tokenize :: "string \<Rightarrow> token list" where
  "tokenize [] = []"
| "tokenize (c # cs) =
     (if take 4 (c # cs) = ''YYYY'' then T_YYYY # tokenize (drop 3 cs)
      else if take 2 (c # cs) = ''DD'' then T_DD # tokenize (drop 1 cs)
      else if take 2 (c # cs) = ''MM'' then T_MM # tokenize (drop 1 cs)
      else if take 2 (c # cs) = ''HH'' then T_HH # tokenize (drop 1 cs)
      else if take 2 (c # cs) = ''mm'' then T_mm # tokenize (drop 1 cs)
      else Lit c # tokenize cs)"

subsection \<open>Timestamp to string\<close>

definition digit_char :: "nat \<Rightarrow> char" where
  "digit_char n = ''0123456789'' ! (n mod 10)"

fun show_nat :: "nat \<Rightarrow> string" where
  "show_nat n = (if n < 10 then [digit_char n] else show_nat (n div 10) @ [digit_char (n mod 10)])"

declare show_nat.simps [simp del]

text \<open>
  Zero padding to a target length: a number with more digits than the target keeps them
  all, a negative number gets a minus sign in front of the padded digits.
\<close>

definition zeroFill :: "int \<Rightarrow> nat \<Rightarrow> string" where
  "zeroFill number targetLength =
     (let absNumber = show_nat (nat \<bar>number\<bar>)
      in (if 0 \<le> number then '''' else ''-'')
         @ replicate (targetLength - length absNumber) (CHR ''0'') @ absNumber)"

record date_fields =
  year :: int
  month :: int
  day :: int
  hour :: int
  minute :: int

text \<open>
  The local calendar fields of a timestamp in milliseconds; seconds and milliseconds are
  not among them.
\<close>

definition local_fields :: "zone \<Rightarrow> int \<Rightarrow> date_fields" where
  "local_fields z ms =
     (let u = ms div 1000;
          mins = (u + offset_at z u) div 60;
          r = mins mod 1440
      in case civil_from_days (mins div 1440) of
           (y, m, d) \<Rightarrow> \<lparr> year = y, month = m, day = d, hour = r div 60, minute = r mod 60 \<rparr>)"

fun render :: "date_fields \<Rightarrow> token \<Rightarrow> string" where
  "render f T_DD = zeroFill (day f) 2"
| "render f T_MM = zeroFill (month f) 2"
| "render f T_YYYY = zeroFill (year f) 4"
| "render f T_HH = zeroFill (hour f) 2"
| "render f T_mm = zeroFill (minute f) 2"
| "render f (Lit c) = [c]"

text \<open>
  Modelled from the spec: \<open>moment(ms).format(fmt)\<close>, whose code is not in the sources.
  A JavaScript date holds at most 8640000000000000 milliseconds either side of 1970; a
  timestamp beyond that is an invalid date and is formatted as such.
\<close>

definition moment_format :: "zone \<Rightarrow> string \<Rightarrow> int \<Rightarrow> string" where
  "moment_format z fmt ms =
     (if \<bar>ms\<bar> \<le> 8640000000000000
      then concat (map (render (local_fields z ms)) (tokenize fmt))
      else ''Invalid date'')"

subsection \<open>String to timestamp\<close>

definition is_digit :: "char \<Rightarrow> bool" where
  "is_digit c = (48 \<le> (of_char c :: nat) \<and> (of_char c :: nat) \<le> 57)"

definition digit_val :: "char \<Rightarrow> nat" where
  "digit_val c = of_char c - 48"

definition read_nat :: "string \<Rightarrow> nat" where
  "read_nat s = foldl (\<lambda>a c. 10 * a + digit_val c) 0 s"

fun token_width :: "token \<Rightarrow> nat" where
  "token_width T_YYYY = 4"
| "token_width (Lit c) = 1"
| "token_width _ = 2"

text \<open>
  The value of a field from its digits. A year given with exactly two digits is a year of
  the current or the last century.
\<close>

fun field_value :: "token \<Rightarrow> string \<Rightarrow> int" where
  "field_value T_YYYY ds =
     (if length ds = 2
      then int (read_nat ds) + (if 68 < read_nat ds then 1900 else 2000)
      else int (read_nat ds))"
| "field_value t ds = int (read_nat ds)"

text \<open>
  The input is matched against the tokens from left to right. A field token skips to the
  next digit and takes the digits from there, up to its width; with no digit left it
  finds nothing and the input stays as it is. A separator skips to its next occurrence
  and past it; when it does not occur the input stays as it is. What is left of the input
  at the end is ignored.
\<close>

fun parse_tokens :: "token list \<Rightarrow> string \<Rightarrow> (token \<rightharpoonup> int) \<Rightarrow> (token \<rightharpoonup> int)" where
  "parse_tokens [] s a = a"
| "parse_tokens (Lit c # ts) s a =
     (if c \<in> set s then parse_tokens ts (tl (dropWhile (\<lambda>x. x \<noteq> c) s)) a
      else parse_tokens ts s a)"
| "parse_tokens (t # ts) s a =
     (let s' = dropWhile (\<lambda>x. \<not> is_digit x) s;
          ds = take (token_width t) (takeWhile is_digit s')
      in if ds = [] then parse_tokens ts s a
         else parse_tokens ts (drop (length ds) s') (a(t \<mapsto> field_value t ds)))"

text \<open>
  The fields must name a real date and time of day; \<open>24:00\<close> is read as the end of the
  day.
\<close>

definition valid_fields :: "date_fields \<Rightarrow> bool" where
  "valid_fields f =
     (1 \<le> month f \<and> month f \<le> 12 \<and> 1 \<le> day f \<and> day f \<le> days_in_month (year f) (month f)
      \<and> (hour f \<le> 23 \<or> hour f = 24 \<and> minute f = 0) \<and> minute f \<le> 59)"

text \<open>The seconds from 1 January 1970 00:00 to the local date and time of the fields.\<close>

definition local_seconds :: "date_fields \<Rightarrow> int" where
  "local_seconds f =
     (days_from_civil (year f) (month f) (day f) * 1440 + hour f * 60 + minute f) * 60"

text \<open>
  Fields the string does not give. Year, month and day are taken from the current date as
  long as nothing before them was given; after a given field the month is January and the
  day the first. Hour and minute are zero.
\<close>

definition fill_fields :: "date_fields \<Rightarrow> (token \<rightharpoonup> int) \<Rightarrow> date_fields" where
  "fill_fields today a =
     \<lparr> year = (case a T_YYYY of Some y \<Rightarrow> y | None \<Rightarrow> year today),
       month = (case a T_MM of Some m \<Rightarrow> m
                | None \<Rightarrow> if a T_YYYY = None then month today else 1),
       day = (case a T_DD of Some d \<Rightarrow> d
              | None \<Rightarrow> if a T_YYYY = None \<and> a T_MM = None then day today else 1),
       hour = (case a T_HH of Some h \<Rightarrow> h | None \<Rightarrow> 0),
       minute = (case a T_mm of Some mi \<Rightarrow> mi | None \<Rightarrow> 0) \<rparr>"

text \<open>
  Modelled from the spec: \<open>moment(s, fmt).unix()\<close>, whose code is not in the sources.
  \<open>None\<close> is its not-a-number result, for a string in which no field was found or
  whose fields are out of range.
\<close>

definition moment_parse_unix :: "zone \<Rightarrow> int \<Rightarrow> string \<Rightarrow> string \<Rightarrow> int option" where
  "moment_parse_unix z now s fmt =
     (let a = parse_tokens (tokenize fmt) s Map.empty;
          f = fill_fields (local_fields z now) a
      in if a T_YYYY = None \<and> a T_MM = None \<and> a T_DD = None \<and> a T_HH = None \<and> a T_mm = None
         then None
         else if valid_fields f then Some (utc_of_local z (local_seconds f))
         else None)"

text \<open>The library as the component sees it, in the zone \<open>z\<close>.\<close>

definition moment_local :: "zone \<Rightarrow> moment" where
  "moment_local z =
     \<lparr> format_ms = (\<lambda>fmt ms. moment_format z fmt ms),
       parse_unix = (\<lambda>now s fmt. moment_parse_unix z now s fmt) \<rparr>"

text \<open>Two and four decimal digits, as the padded fields come out (for the proofs).\<close>

definition digits2 :: "nat \<Rightarrow> string" where
  "digits2 n = [digit_char (n div 10), digit_char (n mod 10)]"

definition digits4 :: "nat \<Rightarrow> string" where
  "digits4 n = [digit_char (n div 1000), digit_char (n div 100 mod 10),
     digit_char (n div 10 mod 10), digit_char (n mod 10)]"

text \<open>The record of the scenario in the spec's testable properties.\<close>

definition scenario_trade :: StoredTrade where
  "scenario_trade =
     \<lparr> st_trade_id = ''abc'', st_pair = ''BTC_EUR'', st_timestamp = 1600000000,
       st_amount = ''1'', st_rate = ''9000'', st_fee = ''0'', st_fee_currency = ''EUR'',
       st_link = '''', st_notes = '''', st_trade_type = ''buy'' \<rparr>"

section \<open>Facts about the date library\<close>

lemma yoe_split:
  fixes doe :: int
  assumes "0 \<le> doe" "doe < 146097"
  defines "cent \<equiv> min (doe div 36524) 3"
  defines "doc \<equiv> doe - cent * 36524"
  defines "quad \<equiv> doc div 1461"
  defines "doq \<equiv> doc mod 1461"
  defines "yoq \<equiv> min (doq div 365) 3"
  defines "doy \<equiv> doq - yoq * 365"
  defines "yoe \<equiv> cent * 100 + quad * 4 + yoq"
  shows "0 \<le> yoe" "yoe < 400" "0 \<le> doy" "doy \<le> 365"
        "days_before_year yoe + doy = doe"
        "doy = 365 \<Longrightarrow> (yoe + 1) mod 4 = 0 \<and> ((yoe + 1) mod 100 = 0 \<longrightarrow> yoe = 399)"
proof -
  have cent: "0 \<le> cent" "cent \<le> 3" using assms(1,2) unfolding cent_def by auto
  have doc: "0 \<le> doc" "doc \<le> 36524" "cent < 3 \<Longrightarrow> doc < 36524"
    using assms(1,2) unfolding doc_def cent_def by (auto simp: min_def) 
  have quad: "0 \<le> quad" "quad \<le> 24" using doc unfolding quad_def by auto
  have doq: "0 \<le> doq" "doq \<le> 1460" "doc = quad * 1461 + doq" unfolding doq_def quad_def by auto
  have quad24: "cent < 3 \<Longrightarrow> doq = 1460 \<Longrightarrow> quad < 24"
    using doc(3) doq(3) by linarith
  have yoq: "0 \<le> yoq" "yoq \<le> 3" using doq unfolding yoq_def by auto
  have doy: "0 \<le> doy" "doy \<le> 365" "doy = 365 \<Longrightarrow> yoq = 3 \<and> doq = 1460" using doq unfolding doy_def yoq_def by (auto simp: min_def)
  have d4: "yoe div 4 = cent * 25 + quad" using yoq unfolding yoe_def by auto
  have d100: "yoe div 100 = cent" using yoq quad unfolding yoe_def by auto
  show "0 \<le> yoe" using cent quad yoq unfolding yoe_def by auto
  show "yoe < 400" using cent quad yoq unfolding yoe_def by auto
  show "0 \<le> doy" "doy \<le> 365" using doy by auto
  show "days_before_year yoe + doy = doe"
    unfolding days_before_year_def d4 d100 using doq(3) unfolding yoe_def doy_def doc_def by simp
  show "doy = 365 \<Longrightarrow> (yoe + 1) mod 4 = 0 \<and> ((yoe + 1) mod 100 = 0 \<longrightarrow> yoe = 399)"
  proof -
    assume "doy = 365"
    then have e: "yoq = 3" "doq = 1460" using doy(3) by auto
    have "yoe + 1 = 4 * (cent * 25 + quad + 1)" unfolding yoe_def e by simp
    then have a: "(yoe + 1) mod 4 = 0" by simp
    have b: "(yoe + 1) mod 100 = 0 \<longrightarrow> yoe = 399"
    proof
      assume h: "(yoe + 1) mod 100 = 0"
      have eq: "yoe + 1 = cent * 100 + (quad * 4 + 4)" unfolding yoe_def e by simp
      have "(yoe + 1) mod 100 = (quad * 4 + 4) mod 100"
        unfolding eq by (rule mod_mult_self3)
      then have m: "(quad * 4 + 4) mod 100 = 0" using h by (simp only:)
      have "quad = 24"
      proof (rule ccontr)
        assume "quad \<noteq> 24"
        then have "0 < quad * 4 + 4" "quad * 4 + 4 < 100" using quad by auto
        then have "(quad * 4 + 4) mod 100 = quad * 4 + 4" by simp
        then show False using m \<open>0 < quad * 4 + 4\<close> by simp
      qed
      then have "\<not> cent < 3" using quad24[OF _ e(2)] by auto
      then have "cent = 3" using cent by linarith
      then show "yoe = 399" unfolding yoe_def e using \<open>quad = 24\<close> by simp
    qed
    show ?thesis using a b by simp
  qed
qed


lemma month_split:
  fixes doy :: int
  assumes "0 \<le> doy" "doy \<le> 365"
  defines "mp \<equiv> (5 * doy + 2) div 153"
  defines "d \<equiv> doy - (153 * mp + 2) div 5 + 1"
  defines "m \<equiv> (if mp < 10 then mp + 3 else mp - 9)"
  shows "1 \<le> m" "m \<le> 12" "(if m > 2 then m - 3 else m + 9) = mp"
        "1 \<le> d" "d \<le> month_len doy m" "m \<le> 2 \<longleftrightarrow> 306 \<le> doy"
proof -
  define r where "r = (5 * doy + 2) mod 153"
  have r: "0 \<le> r" "r < 153" "5 * doy + 2 = 153 * mp + r"
    unfolding r_def mp_def by auto
  have mp: "0 \<le> mp" "mp \<le> 11" using r assms(1,2) by linarith+
  then have "mp = 0 \<or> mp = 1 \<or> mp = 2 \<or> mp = 3 \<or> mp = 4 \<or> mp = 5
    \<or> mp = 6 \<or> mp = 7 \<or> mp = 8 \<or> mp = 9 \<or> mp = 10 \<or> mp = 11"
    by arith
  then consider "mp = 0" | "mp = 1" | "mp = 2" | "mp = 3" | "mp = 4" | "mp = 5"
    | "mp = 6" | "mp = 7" | "mp = 8" | "mp = 9" | "mp = 10" | "mp = 11"
    by blast
  then have all: "1 \<le> m \<and> m \<le> 12 \<and> (if m > 2 then m - 3 else m + 9) = mp \<and>
        1 \<le> d \<and> d \<le> month_len doy m \<and> (m \<le> 2 \<longleftrightarrow> 306 \<le> doy)"
  proof cases
    case 1 then show ?thesis using r assms(1,2) unfolding m_def d_def month_len_def by auto
  next
    case 2 then show ?thesis using r assms(1,2) unfolding m_def d_def month_len_def by auto
  next
    case 3 then show ?thesis using r assms(1,2) unfolding m_def d_def month_len_def by auto
  next
    case 4 then show ?thesis using r assms(1,2) unfolding m_def d_def month_len_def by auto
  next
    case 5 then show ?thesis using r assms(1,2) unfolding m_def d_def month_len_def by auto
  next
    case 6 then show ?thesis using r assms(1,2) unfolding m_def d_def month_len_def by auto
  next
    case 7 then show ?thesis using r assms(1,2) unfolding m_def d_def month_len_def by auto
  next
    case 8 then show ?thesis using r assms(1,2) unfolding m_def d_def month_len_def by auto
  next
    case 9 then show ?thesis using r assms(1,2) unfolding m_def d_def month_len_def by auto
  next
    case 10 then show ?thesis using r assms(1,2) unfolding m_def d_def month_len_def by auto
  next
    case 11 then show ?thesis using r assms(1,2) unfolding m_def d_def month_len_def by auto
  next
    case 12 then show ?thesis using r assms(1,2) unfolding m_def d_def month_len_def by auto
  qed
  show "1 \<le> m" "m \<le> 12" "(if m > 2 then m - 3 else m + 9) = mp"
        "1 \<le> d" "d \<le> month_len doy m" "m \<le> 2 \<longleftrightarrow> 306 \<le> doy"
    using all by blast+
qed

lemma civil_from_days_props:
  assumes c: "civil_from_days z = (y, m, d)"
  shows "days_from_civil y m d = z"
    and "1 \<le> m" "m \<le> 12" "1 \<le> d" "d \<le> days_in_month y m"
    and "- 719528 \<le> z \<Longrightarrow> z \<le> 2932896 \<Longrightarrow> 0 \<le> y \<and> y \<le> 9999"
proof -
  define z' where "z' = z + 719468"
  define era where "era = z' div 146097"
  define doe where "doe = z' mod 146097"
  define cent where "cent = min (doe div 36524) 3"
  define doc where "doc = doe - cent * 36524"
  define quad where "quad = doc div 1461"
  define doq where "doq = doc mod 1461"
  define yoq where "yoq = min (doq div 365) 3"
  define doy where "doy = doq - yoq * 365"
  define yoe where "yoe = cent * 100 + quad * 4 + yoq"
  define mp where "mp = (5 * doy + 2) div 153"
  have doe: "0 \<le> doe" "doe < 146097" "z' = era * 146097 + doe"
    unfolding doe_def era_def by auto
  note ys = yoe_split[OF doe(1,2), folded cent_def, folded doc_def, folded quad_def doq_def,
      folded yoq_def, folded doy_def yoe_def]
  define m0 where "m0 = (if mp < 10 then mp + 3 else mp - 9)"
  have "civil_from_days z =
      (yoe + era * 400 + (if m0 \<le> 2 then 1 else 0), m0, doy - (153 * mp + 2) div 5 + 1)"
    unfolding civil_from_days_def Let_def m0_def mp_def yoe_def doy_def yoq_def doq_def
      quad_def doc_def cent_def doe_def era_def z'_def by (rule refl)
  then have d: "d = doy - (153 * mp + 2) div 5 + 1"
    and m: "m = (if mp < 10 then mp + 3 else mp - 9)"
    and y: "y = yoe + era * 400 + (if m \<le> 2 then 1 else 0)"
    using c unfolding m0_def by simp_all
  note ms = month_split[OF ys(3,4), folded mp_def, folded d m]
  show "1 \<le> m" "m \<le> 12" "1 \<le> d" using ms by auto
  have y': "(if m \<le> 2 then y - 1 else y) = era * 400 + yoe" using y by auto
  have e1: "(era * 400 + yoe) div 400 = era" using ys(1,2) by auto
  have e2: "(era * 400 + yoe) mod 400 = yoe" using ys(1,2) by auto
  have doy': "(153 * mp + 2) div 5 + d - 1 = doy" using d by simp
  show "days_from_civil y m d = z"
    unfolding days_from_civil_def Let_def y' e1 e2 ms(3) doy' ys(5)
    using doe(3) unfolding z'_def by simp
  show "d \<le> days_in_month y m"
  proof (cases "m = 2 \<and> doy = 365")
    case True
    then have yy: "y = (yoe + 1) + era * 400" using y by simp
    have l: "(yoe + 1) mod 4 = 0" "(yoe + 1) mod 100 = 0 \<longrightarrow> yoe = 399"
      using ys(6) True by auto
    have "y = (yoe + 1) + (era * 100) * 4" using yy by simp
    then have "y mod 4 = (yoe + 1) mod 4" by (simp only: mod_mult_self1)
    then have a: "y mod 4 = 0" using l by simp
    have "y = (yoe + 1) + (era * 4) * 100" using yy by simp
    then have "y mod 100 = (yoe + 1) mod 100" by (simp only: mod_mult_self1)
    then have b: "y mod 100 = 0 \<longrightarrow> y mod 400 = 0" using l yy by auto
    have "is_leap y" unfolding is_leap_def using a b by simp
    then show ?thesis using ms(5) True unfolding days_in_month_def month_len_def by simp
  next
    case False
    then show ?thesis using ms(5) unfolding days_in_month_def month_len_def
      by (auto split: if_splits)
  qed
  show "0 \<le> y \<and> y \<le> 9999" if lo: "- 719528 \<le> z" and hi: "z \<le> 2932896"
  proof -
    have z': "- 60 \<le> z'" "z' \<le> 3652364" using lo hi unfolding z'_def by auto
    have era: "- 1 \<le> era" "era \<le> 24" using z' doe by linarith+
    have q4: "0 \<le> yoe div 4" "yoe div 4 \<le> 99" using ys(1,2) by auto
    have q100: "0 \<le> yoe div 100" "yoe div 100 \<le> 3" using ys(1,2) by auto
    have dby: "365 * yoe + yoe div 4 - yoe div 100 + doy = doe"
      using ys(5) unfolding days_before_year_def by simp
    have "0 \<le> y"
    proof (cases "era = - 1")
      case True
      then have "146037 \<le> doe" using doe(3) z' by linarith
      then have "399 \<le> yoe" using dby q4 q100 ys(4) by linarith
      then have yoe: "yoe = 399" using ys(2) by linarith
      then have "306 \<le> doy" using dby \<open>146037 \<le> doe\<close> by simp
      then have "m \<le> 2" using ms(6) by simp
      then show ?thesis using y yoe True by simp
    next
      case False
      then have "0 \<le> era" using era by linarith
      then show ?thesis using y ys(1) by (auto split: if_splits)
    qed
    moreover have "y \<le> 9999"
    proof (cases "era = 24 \<and> yoe = 399")
      case True
      then have "doe \<le> 146036" using doe(3) z' by linarith
      then have "doy \<le> 305" using dby True by simp
      then have "\<not> m \<le> 2" using ms(6) by simp
      then show ?thesis using y True by simp
    next
      case False
      then have "era \<le> 23 \<or> yoe \<le> 398" using era ys(2) by linarith
      then show ?thesis using y ys(2) era by (auto split: if_splits)
    qed
    ultimately show ?thesis by simp
  qed
qed

lemma tokenize_OtcForm_format:
  "tokenize OtcForm_format =
     [T_DD, Lit (CHR ''/''), T_MM, Lit (CHR ''/''), T_YYYY, Lit (CHR '' ''), T_HH,
      Lit (CHR '':''), T_mm]"
  unfolding OtcForm_format_def by code_simp

lemma digit_char_props:
  assumes "k < 10"
  shows "is_digit (digit_char k) \<and> digit_val (digit_char k) = k"
proof -
  have "k \<in> {0, 1, 2, 3, 4, 5, 6, 7, 8, 9}"
    using assms by auto
  then show ?thesis
    by (auto simp: is_digit_def digit_val_def digit_char_def)
qed

lemma digit_char_0: "CHR ''0'' = digit_char 0"
  by (simp add: digit_char_def)

lemma show_nat_1: "n < 10 \<Longrightarrow> show_nat n = [digit_char n]"
  by (simp add: show_nat.simps)

lemma show_nat_2:
  assumes "10 \<le> n" "n < 100"
  shows "show_nat n = [digit_char (n div 10), digit_char (n mod 10)]"
proof -
  have "n div 10 < 10" using assms by simp
  then show ?thesis using assms by (subst show_nat.simps) (simp add: show_nat_1)
qed

lemma show_nat_3:
  assumes "100 \<le> n" "n < 1000"
  shows "show_nat n = [digit_char (n div 100), digit_char (n div 10 mod 10), digit_char (n mod 10)]"
proof -
  have "10 \<le> n div 10" "n div 10 < 100" using assms by simp_all
  then show ?thesis using assms
    by (subst show_nat.simps) (simp add: show_nat_2 div_mult2_eq[symmetric])
qed

lemma show_nat_4:
  assumes "1000 \<le> n" "n < 10000"
  shows "show_nat n = [digit_char (n div 1000), digit_char (n div 100 mod 10),
     digit_char (n div 10 mod 10), digit_char (n mod 10)]"
proof -
  have "100 \<le> n div 10" "n div 10 < 1000" using assms by simp_all
  then show ?thesis using assms
    by (subst show_nat.simps) (simp add: show_nat_3 div_mult2_eq[symmetric])
qed

lemma zeroFill_2:
  assumes "0 \<le> x" "x < 100"
  shows "zeroFill x 2 = digits2 (nat x)"
proof (cases "nat x < 10")
  case True
  then show ?thesis using assms
    by (simp add: zeroFill_def show_nat_1 digits2_def digit_char_0)
next
  case False
  then have "10 \<le> nat x" "nat x < 100" using assms by auto
  then show ?thesis using assms by (simp add: zeroFill_def show_nat_2 digits2_def)
qed

lemma replicate_small:
  "replicate 3 c = [c, c, c]" "replicate 2 c = [c, c]" "replicate (Suc 0) c = [c]"
  by (simp_all add: numeral_3_eq_3 numeral_2_eq_2)

lemma zeroFill_4:
  assumes "0 \<le> x" "x < 10000"
  shows "zeroFill x 4 = digits4 (nat x)"
proof -
  consider "nat x < 10" | "10 \<le> nat x" "nat x < 100" | "100 \<le> nat x" "nat x < 1000"
    | "1000 \<le> nat x" "nat x < 10000"
    using assms by linarith
  then show ?thesis
  proof cases
    case 1 then show ?thesis using assms
      by (simp add: zeroFill_def show_nat_1 digits4_def digit_char_0 replicate_small)
  next
    case 2 then show ?thesis using assms
      by (simp add: zeroFill_def show_nat_2 digits4_def digit_char_0 replicate_small)
  next
    case 3 then show ?thesis using assms
      by (simp add: zeroFill_def show_nat_3 digits4_def digit_char_0 replicate_small)
  next
    case 4 then show ?thesis using assms
      by (simp add: zeroFill_def show_nat_4 digits4_def)
  qed
qed

lemma digits2_props:
  assumes "n < 100"
  shows "length (digits2 n) = 2" "list_all is_digit (digits2 n)" "read_nat (digits2 n) = n"
proof -
  have "n div 10 < 10" "n mod 10 < 10" using assms by simp_all
  then show "length (digits2 n) = 2" "list_all is_digit (digits2 n)" "read_nat (digits2 n) = n"
    by (simp_all add: digits2_def read_nat_def digit_char_props)
qed

lemma digits4_props:
  assumes "n < 10000"
  shows "length (digits4 n) = 4" "list_all is_digit (digits4 n)" "read_nat (digits4 n) = n"
proof -
  have b: "n div 1000 < 10" "n div 100 mod 10 < 10" "n div 10 mod 10 < 10" "n mod 10 < 10"
    using assms by simp_all
  have "n = 10 * (n div 10) + n mod 10" by simp
  also have "n div 10 = 10 * (n div 10 div 10) + n div 10 mod 10" by simp
  also have "n div 10 div 10 = n div 100" by (simp add: div_mult2_eq[symmetric])
  also have "n div 100 = 10 * (n div 100 div 10) + n div 100 mod 10" by simp
  also have "n div 100 div 10 = n div 1000" by (simp add: div_mult2_eq[symmetric])
  finally have e: "n = 10 * (10 * (10 * (n div 1000) + n div 100 mod 10) + n div 10 mod 10) + n mod 10" .
  show "length (digits4 n) = 4" by (simp add: digits4_def)
  show "list_all is_digit (digits4 n)" using b by (simp add: digits4_def digit_char_props)
  show "read_nat (digits4 n) = n"
    using b e by (simp add: digits4_def read_nat_def digit_char_props)
qed

lemma digits2_shape:
  assumes "n < 100"
  shows "\<exists>a b. digits2 n = [a, b] \<and> is_digit a \<and> is_digit b"
  using digits2_props[OF assms] by (auto simp: digits2_def)

lemma digits4_shape:
  assumes "n < 10000"
  shows "\<exists>a b c d. digits4 n = [a, b, c, d] \<and> is_digit a \<and> is_digit b \<and> is_digit c \<and> is_digit d"
  using digits4_props[OF assms] by (auto simp: digits4_def)

lemma parse_tokens_field2:
  assumes "t \<in> {T_DD, T_MM, T_HH, T_mm}" "n < 100"
  shows "parse_tokens (t # ts) (digits2 n @ rest) a = parse_tokens ts rest (a(t \<mapsto> int n))"
proof -
  obtain x y where d: "digits2 n = [x, y]" "is_digit x" "is_digit y"
    using digits2_shape[OF assms(2)] by blast
  have v: "read_nat [x, y] = n" using digits2_props(3)[OF assms(2)] d(1) by simp
  show ?thesis
    using assms(1) d(2,3) v unfolding d(1)
    by (cases t) (auto simp: Let_def)
qed

lemma parse_tokens_field4:
  assumes "n < 10000"
  shows "parse_tokens (T_YYYY # ts) (digits4 n @ rest) a
         = parse_tokens ts rest (a(T_YYYY \<mapsto> int n))"
proof -
  obtain w x y z where d: "digits4 n = [w, x, y, z]" "is_digit w" "is_digit x" "is_digit y"
    "is_digit z"
    using digits4_shape[OF assms] by blast
  have v: "read_nat [w, x, y, z] = n" using digits4_props(3)[OF assms] d(1) by simp
  show ?thesis
    using d(2-5) v unfolding d(1) by (simp add: Let_def)
qed

lemma parse_tokens_separator:
  "parse_tokens (Lit c # ts) (c # rest) a = parse_tokens ts rest a"
  by simp

lemma parse_tokens_end: "parse_tokens [] [] a = a"
  by simp

lemma parse_render_fields:
  assumes "0 \<le> day f" "day f < 100" "0 \<le> month f" "month f < 100"
    "0 \<le> year f" "year f < 10000" "0 \<le> hour f" "hour f < 100"
    "0 \<le> minute f" "minute f < 100"
  shows "parse_tokens (tokenize OtcForm_format)
           (concat (map (render f) (tokenize OtcForm_format))) Map.empty
         = [T_DD \<mapsto> day f, T_MM \<mapsto> month f, T_YYYY \<mapsto> year f,
            T_HH \<mapsto> hour f, T_mm \<mapsto> minute f]"
proof -
  have n: "nat (day f) < 100" "nat (month f) < 100" "nat (year f) < 10000"
    "nat (hour f) < 100" "nat (minute f) < 100" using assms by auto
  show ?thesis
    using assms n
    by (simp add: tokenize_OtcForm_format zeroFill_2 zeroFill_4 parse_tokens_field2
        parse_tokens_field4 parse_tokens_separator parse_tokens_end
        parse_tokens_field2[where rest = "[]", simplified]
        del: parse_tokens.simps)
qed

lemma local_after_change:
  assumes "regular_from off ((t, off') # ts)" "t \<le> u"
  shows "t + off' \<le> u + offset_from off' ts u"
  using assms
proof (induction ts arbitrary: off t off')
  case Nil
  then show ?case by simp
next
  case (Cons c ts)
  obtain t2 off2 where c: "c = (t2, off2)" by (cases c)
  show ?case
  proof (cases "t2 \<le> u")
    case False
    then show ?thesis using Cons.prems(2) c by simp
  next
    case True
    have r: "regular_from off' ((t2, off2) # ts)" using Cons.prems(1) c by simp
    have s: "t + max off off' \<le> t2 + min off' off2" using Cons.prems(1) c by simp
    have "t2 + off2 \<le> u + offset_from off2 ts u" by (rule Cons.IH[OF r True])
    then show ?thesis using s True c by simp
  qed
qed

lemma utc_from_local_inverse:
  assumes "regular_from off ts" "\<not> repeated_from off ts u"
  shows "utc_from_local off ts (u + offset_from off ts u) = u"
  using assms
proof (induction ts arbitrary: off)
  case Nil
  show ?case by simp
next
  case (Cons c ts)
  obtain t off' where c: "c = (t, off')" by (cases c)
  show ?case
  proof (cases "t \<le> u")
    case False
    then have "u + off < t + max off off'" by simp
    then show ?thesis using False c by simp
  next
    case True
    have r: "regular_from off' ts" using Cons.prems(1) c by simp
    have n: "\<not> u + offset_from off' ts u < t + off" "\<not> repeated_from off' ts u"
      using Cons.prems(2) True c by auto
    have "t + off' \<le> u + offset_from off' ts u"
      using local_after_change[of off t off' ts u] Cons.prems(1) True c by simp
    then have "\<not> u + offset_from off' ts u < t + max off off'" using n(1) by simp
    then show ?thesis using Cons.IH[OF r n(2)] True c by simp
  qed
qed

lemma regular_from_offset:
  assumes "regular_from off ts"
  shows "\<bar>offset_from off ts u\<bar> \<le> 86400"
  using assms
proof (induction ts arbitrary: off)
  case Nil
  then show ?case by simp
next
  case (Cons c ts)
  obtain t off' where c: "c = (t, off')" by (cases c)
  show ?case using Cons.IH[of off'] Cons.prems c by simp
qed

lemma local_fields_props:
  fixes z :: zone and ms :: int
  defines "f \<equiv> local_fields z ms"
  defines "mins \<equiv> (ms div 1000 + offset_at z (ms div 1000)) div 60"
  shows "valid_fields f" "0 \<le> hour f" "0 \<le> minute f"
    "local_seconds f = mins * 60"
    "- 1036120320 \<le> mins \<Longrightarrow> mins < 4223371680 \<Longrightarrow> 0 \<le> year f \<and> year f \<le> 9999"
proof -
  define r where "r = mins mod 1440"
  obtain y m d where c: "civil_from_days (mins div 1440) = (y, m, d)"
    by (cases "civil_from_days (mins div 1440)") auto
  have f: "f = \<lparr> year = y, month = m, day = d, hour = r div 60, minute = r mod 60 \<rparr>"
    unfolding f_def local_fields_def Let_def mins_def[symmetric] r_def[symmetric] c by simp
  note p = civil_from_days_props[OF c]
  have r: "0 \<le> r" "r < 1440" "mins = mins div 1440 * 1440 + r" unfolding r_def by auto
  have h: "0 \<le> r div 60" "r div 60 \<le> 23" "0 \<le> r mod 60" "r mod 60 \<le> 59"
    "r div 60 * 60 + r mod 60 = r" using r by auto
  show "valid_fields f" unfolding valid_fields_def f using p h by simp
  show "0 \<le> hour f" "0 \<le> minute f" unfolding f using h by simp_all
  show "local_seconds f = mins * 60"
    unfolding local_seconds_def f using p(1) h(5) r(3) by simp
  show "0 \<le> year f \<and> year f \<le> 9999" if "- 1036120320 \<le> mins" "mins < 4223371680"
  proof -
    have "- 719528 \<le> mins div 1440" "mins div 1440 \<le> 2932896"
      using that r by linarith+
    then show ?thesis using p(6) unfolding f by simp
  qed
qed

lemma days_in_month_le: "days_in_month y m \<le> 31"
  by (simp add: days_in_month_def)

lemma fill_fields_all:
  "fill_fields today [T_DD \<mapsto> d, T_MM \<mapsto> m, T_YYYY \<mapsto> y, T_HH \<mapsto> h, T_mm \<mapsto> mi]
   = \<lparr> year = y, month = m, day = d, hour = h, minute = mi \<rparr>"
  by (simp add: fill_fields_def)

lemma parse_format_local:
  fixes z :: zone and ms now :: int
  defines "mins \<equiv> (ms div 1000 + offset_at z (ms div 1000)) div 60"
  assumes "\<bar>ms\<bar> \<le> 8640000000000000" "- 1036120320 \<le> mins" "mins < 4223371680"
  shows "moment_parse_unix z now (moment_format z OtcForm_format ms) OtcForm_format
         = Some (utc_of_local z (mins * 60))"
proof -
  define f where "f = local_fields z ms"
  note p = local_fields_props[where z = z and ms = ms, folded f_def mins_def]
  have v: "1 \<le> month f" "month f \<le> 12" "1 \<le> day f" "day f \<le> days_in_month (year f) (month f)"
    using p(1) unfolding valid_fields_def by auto
  have d: "day f \<le> 31" using v(4) days_in_month_le[of "year f" "month f"] by linarith
  have hm: "hour f \<le> 24" "minute f \<le> 59"
    using p(1) unfolding valid_fields_def by auto
  have y: "0 \<le> year f" "year f \<le> 9999" using p(5)[OF assms(3,4)] by auto
  have pr: "parse_tokens (tokenize OtcForm_format)
           (concat (map (render f) (tokenize OtcForm_format))) Map.empty
         = [T_DD \<mapsto> day f, T_MM \<mapsto> month f, T_YYYY \<mapsto> year f,
            T_HH \<mapsto> hour f, T_mm \<mapsto> minute f]"
    by (rule parse_render_fields) (use v d y hm p(2,3) in auto)
  have e: "\<lparr> year = year f, month = month f, day = day f, hour = hour f, minute = minute f \<rparr> = f"
    by simp
  have fmt: "moment_format z OtcForm_format ms = concat (map (render f) (tokenize OtcForm_format))"
    using assms(2) by (simp add: moment_format_def f_def)
  show ?thesis
    unfolding moment_parse_unix_def fmt pr fill_fields_all e Let_def
    using p(1,4) by simp
qed

lemma parse_format_minute:
  fixes z :: zone and T now :: int
  assumes reg: "regular z"
    and whole: "offset_at z T mod 60 = 0"
    and steady: "offset_at z (T - T mod 60) = offset_at z T"
    and once: "\<not> repeats z (T - T mod 60)"
    and lo: "- 62167219200 \<le> T + offset_at z T"
    and hi: "T + offset_at z T < 253402300800"
  shows "moment_parse_unix z now (moment_format z OtcForm_format (T * 1000)) OtcForm_format
         = Some (T - T mod 60)"
proof -
  define off where "off = offset_at z T"
  define mins where "mins = (T + off) div 60"
  have q: "T * 1000 div 1000 = T" by simp
  have b: "\<bar>off\<bar> \<le> 86400"
    using regular_from_offset[of "base_offset z" "changes z" T] reg
    unfolding off_def offset_at_def regular_def by simp
  have js: "\<bar>T * 1000\<bar> \<le> 8640000000000000" using lo hi b unfolding off_def by linarith
  have dm: "T + off = mins * 60 + (T + off) mod 60" "0 \<le> (T + off) mod 60" "(T + off) mod 60 < 60"
    unfolding mins_def by auto
  have r: "- 1036120320 \<le> mins" "mins < 4223371680"
    using lo hi dm unfolding off_def[symmetric] by linarith+
  have same: "(T + off) mod 60 = T mod 60"
    using whole unfolding off_def[symmetric] by (metis add.right_neutral mod_add_right_eq)
  have start: "mins * 60 = (T - T mod 60) + off" using dm(1) same by linarith
  have keep: "offset_at z (T - T mod 60) = off"
    using steady unfolding off_def .
  have "utc_of_local z ((T - T mod 60) + offset_at z (T - T mod 60)) = T - T mod 60"
    using utc_from_local_inverse[of "base_offset z" "changes z" "T - T mod 60"] reg once
    unfolding utc_of_local_def offset_at_def regular_def repeats_def by simp
  then have rt: "utc_of_local z (mins * 60) = T - T mod 60" unfolding start keep .
  have "moment_parse_unix z now (moment_format z OtcForm_format (T * 1000)) OtcForm_format
         = Some (utc_of_local z (mins * 60))"
    using parse_format_local[of "T * 1000" z now] js r
    unfolding q off_def[symmetric] mins_def[symmetric] by simp
  then show ?thesis unfolding rt .
qed

section \<open>Facts about the component in use\<close>

lemma agrees_create: "agrees (create em tr) tr ''''"
  by (cases tr) (simp_all add: agrees_def create_def)

lemma step_agrees:
  assumes "agrees c waiting ident"
  shows "\<exists>waiting' ident'. agrees (fst (step M now a c)) waiting' ident' \<and>
           (\<forall>later. carried_from waiting ident (a # later) = carried_from waiting' ident' later)"
proof (cases a)
  case (SetOtcTrade tr)
  show ?thesis
  proof (cases tr)
    case None
    have "agrees (fst (step M now a c)) None ''''"
      using SetOtcTrade None by (auto simp: agrees_def onTradeChange_def resetFields_def split: option.splits)
    then show ?thesis using SetOtcTrade None by (intro exI[of _ None] exI[of _ "''''"]) simp
  next
    case (Some trade)
    have "agrees (fst (step M now a c)) None (st_trade_id trade)"
      using SetOtcTrade Some by (auto simp: agrees_def onTradeChange_def updateFields_def split: option.splits)
    then show ?thesis using SetOtcTrade Some
      by (intro exI[of _ None] exI[of _ "st_trade_id trade"]) simp
  qed
next
  case (SetEditMode b)
  show ?thesis
  proof (cases waiting)
    case None
    have "agrees (fst (step M now a c)) None ident"
      using SetEditMode None assms by (auto simp: agrees_def reapply_props_def split: option.splits)
    then show ?thesis using SetEditMode None by (intro exI[of _ None] exI[of _ ident]) simp
  next
    case (Some trade)
    have "agrees (fst (step M now a c)) None (st_trade_id trade)"
      using SetEditMode Some assms
      by (auto simp: agrees_def reapply_props_def onTradeChange_def updateFields_def split: option.splits)
    then show ?thesis using SetEditMode Some
      by (intro exI[of _ None] exI[of _ "st_trade_id trade"]) simp
  qed
next
  case (Input f v)
  have "agrees (fst (step M now a c)) waiting ident"
    using Input assms by (cases f) (auto simp: agrees_def split: option.splits)
  then show ?thesis using Input by (intro exI[of _ waiting] exI[of _ ident]) simp
next
  case ClickSubmit
  have "agrees (fst (step M now a c)) waiting ident"
    using ClickSubmit assms by (auto simp: agrees_def addTrade_def split: option.splits)
  then show ?thesis using ClickSubmit by (intro exI[of _ waiting] exI[of _ ident]) simp
next
  case ClickCancel
  have "agrees (fst (step M now a c)) waiting ''''"
    using ClickCancel assms by (auto simp: agrees_def cancel_def resetFields_def split: option.splits)
  then show ?thesis using ClickCancel by (intro exI[of _ waiting] exI[of _ "''''"]) simp
qed

lemma run_agrees:
  assumes "agrees c waiting ident"
  shows "id_field (fst (run M acts c)) = carried_from waiting ident (map snd acts)"
  using assms
proof (induction acts arbitrary: c waiting ident)
  case Nil
  then show ?case by (simp add: agrees_def)
next
  case (Cons x acts)
  obtain now a where x: "x = (now, a)" by (cases x)
  obtain waiting' ident' where s: "agrees (fst (step M now a c)) waiting' ident'"
    and k: "\<And>later. carried_from waiting ident (a # later) = carried_from waiting' ident' later"
    using step_agrees[OF Cons.prems, of M now a] by blast
  have "id_field (fst (run M (x # acts) c)) = id_field (fst (run M acts (fst (step M now a c))))"
    unfolding x by (simp split: prod.splits)
  also have "\<dots> = carried_from waiting' ident' (map snd acts)" by (rule Cons.IH[OF s])
  finally show ?case using k x by simp
qed

lemma run_id_field:
  "id_field (fst (run M acts (create em tr))) = carried_id tr acts"
  unfolding carried_id_def by (rule run_agrees[OF agrees_create])

lemma step_type_field:
  assumes "wf_action a" "is_trade_type (type_field c)" "wf_bound (bound_otcTrade c)"
  shows "is_trade_type (type_field (fst (step M now a c)))"
    and "wf_bound (bound_otcTrade (fst (step M now a c)))"
    and "Save p \<in> set (snd (step M now a c)) \<Longrightarrow> is_trade_type (tp_trade_type p)"
proof -
  show "is_trade_type (type_field (fst (step M now a c)))"
  proof (cases a)
    case (SetOtcTrade tr)
    then show ?thesis using assms
      by (cases tr)
        (simp_all add: onTradeChange_def resetFields_def updateFields_def is_trade_type_def)
  next
    case (SetEditMode b)
    then show ?thesis using assms
      by (cases "bound_otcTrade c")
        (simp_all add: reapply_props_def onTradeChange_def resetFields_def updateFields_def
          is_trade_type_def)
  next
    case (Input f v)
    then show ?thesis using assms by (cases f) simp_all
  next
    case ClickSubmit
    then show ?thesis using assms by (simp add: addTrade_def)
  next
    case ClickCancel
    then show ?thesis by (simp add: cancel_def resetFields_def is_trade_type_def)
  qed
  show "wf_bound (bound_otcTrade (fst (step M now a c)))"
  proof (cases a)
    case (SetOtcTrade tr)
    then show ?thesis using assms
      by (cases tr) (simp_all add: onTradeChange_def resetFields_def updateFields_def)
  next
    case (SetEditMode b)
    then show ?thesis using assms
      by (cases "bound_otcTrade c")
        (simp_all add: reapply_props_def onTradeChange_def resetFields_def updateFields_def)
  next
    case (Input f v)
    then show ?thesis using assms by (cases f) simp_all
  next
    case ClickSubmit
    then show ?thesis using assms by (simp add: addTrade_def)
  next
    case ClickCancel
    then show ?thesis using assms by (simp add: cancel_def resetFields_def)
  qed
  show "is_trade_type (tp_trade_type p)" if "Save p \<in> set (snd (step M now a c))"
  proof (cases a)
    case (Input f v)
    then show ?thesis using that by simp
  next
    case ClickSubmit
    then show ?thesis using that assms by (auto simp: addTrade_def payload_def)
  next
    case ClickCancel
    then show ?thesis using that by (simp add: cancel_def)
  qed (use that in simp_all)
qed

lemma run_type_field:
  assumes "\<forall>x \<in> set acts. wf_action (snd x)" "is_trade_type (type_field c)"
    "wf_bound (bound_otcTrade c)"
  shows "is_trade_type (type_field (fst (run M acts c))) \<and>
         (\<forall>p. Save p \<in> set (snd (run M acts c)) \<longrightarrow> is_trade_type (tp_trade_type p))"
  using assms
proof (induction acts arbitrary: c)
  case Nil
  then show ?case by simp
next
  case (Cons x acts)
  obtain now a where x: "x = (now, a)" by (cases x)
  obtain c' es where s: "step M now a c = (c', es)" by (cases "step M now a c")
  obtain c'' es' where r: "run M acts c' = (c'', es')" by (cases "run M acts c'")
  have wf: "wf_action a" using Cons.prems x by simp
  note st = step_type_field[OF wf Cons.prems(2,3), where M = M and now = now]
  have t: "is_trade_type (type_field c')" using st(1) s by simp
  have b: "wf_bound (bound_otcTrade c')" using st(2) s by simp
  have e: "\<And>p. Save p \<in> set es \<Longrightarrow> is_trade_type (tp_trade_type p)"
    using st(3) s by simp
  have ih: "is_trade_type (type_field c'') \<and>
         (\<forall>p. Save p \<in> set es' \<longrightarrow> is_trade_type (tp_trade_type p))"
    using Cons.IH[of c'] Cons.prems(1) t b r by simp
  show ?case using ih e by (auto simp: x s r)
qed

section \<open>Evaluations\<close>

lemma parse_empty: "moment_parse_unix z now '''' OtcForm_format = None"
  by (simp add: moment_parse_unix_def tokenize_OtcForm_format Let_def)

lemma show_nat_10000: "show_nat 10000 = ''10000''"
  by (simp add: show_nat.simps[of 10000] show_nat.simps[of 1000] show_nat.simps[of 100]
      show_nat.simps[of 10] show_nat_1 digit_char_def)

lemma zeroFill_10000: "zeroFill 10000 4 = ''10000''"
  by (simp add: zeroFill_def show_nat_10000)

lemma local_fields_10000:
  "local_fields utc 253402300800000
     = \<lparr> year = 10000, month = 1, day = 1, hour = 0, minute = 0 \<rparr>"
  by code_simp

lemma format_year_10000:
  "moment_format utc OtcForm_format 253402300800000 = ''01/01/10000 00:00''"
  by (simp add: moment_format_def tokenize_OtcForm_format local_fields_10000 zeroFill_2
      zeroFill_10000 digits2_def digit_char_def)

lemma parse_year_10000:
  "moment_parse_unix utc 0 ''01/01/10000 00:00'' OtcForm_format = Some (- 30610224000)"
  unfolding OtcForm_format_def by code_simp

lemma format_scenario:
  "moment_format utc OtcForm_format 1600000000000 = ''13/09/2020 12:26''"
  unfolding OtcForm_format_def by code_simp

lemma format_repeated_hour:
  "moment_format berlin_2020 OtcForm_format 1603589400000 = ''25/10/2020 02:30''"
  unfolding OtcForm_format_def by code_simp

lemma parse_repeated_hour:
  "moment_parse_unix berlin_2020 0 ''25/10/2020 02:30'' OtcForm_format = Some 1603585800"
  unfolding OtcForm_format_def by code_simp

lemma berlin_2020_scenario:
  "regular berlin_2020" "offset_at berlin_2020 1600000000 = 7200"
  "offset_at berlin_2020 1599999960 = 7200" "\<not> repeats berlin_2020 1599999960"
  by (simp_all add: regular_def berlin_2020_def offset_at_def repeats_def)

lemma berlin_2020_repeated_hour:
  "offset_at berlin_2020 1603589400 = 3600" "repeats berlin_2020 1603589400"
  by (simp_all add: berlin_2020_def offset_at_def repeats_def)

lemma berlin_1890_mean_time:
  "regular berlin_1890" "offset_at berlin_1890 (- 2524521600) = 3208"
  "\<not> repeats berlin_1890 (- 2524521600)"
  by (simp_all add: regular_def berlin_1890_def offset_at_def repeats_def)

lemma format_mean_time:
  "moment_format berlin_1890 OtcForm_format (- 2524521600000) = ''01/01/1890 00:53''"
  unfolding OtcForm_format_def by code_simp

lemma parse_mean_time:
  "moment_parse_unix berlin_1890 0 ''01/01/1890 00:53'' OtcForm_format = Some (- 2524521628)"
  unfolding OtcForm_format_def by code_simp

lemma utc_plain: "regular utc" "offset_at utc u = 0" "\<not> repeats utc u"
  by (simp_all add: regular_def utc_def offset_at_def repeats_def)

section \<open>Properties\<close>

text \<open>
  C1. Whatever the form held before, once the watcher has processed a change of the
  injected record to a record \<open>R\<close>, every field is the corresponding field of \<open>R\<close>
  and the date/time field is \<open>R\<close>'s timestamp, in milliseconds, formatted with
  \<open>DD/MM/YYYY HH:mm\<close>.
\<close>

theorem record_change_populates:
  "OtcForm_format = ''DD/MM/YYYY HH:mm'' \<and>
   pair (fst (step M now (SetOtcTrade (Some R)) c)) = st_pair R \<and>
   amount (fst (step M now (SetOtcTrade (Some R)) c)) = st_amount R \<and>
   rate (fst (step M now (SetOtcTrade (Some R)) c)) = st_rate R \<and>
   fee (fst (step M now (SetOtcTrade (Some R)) c)) = st_fee R \<and>
   feeCurrency (fst (step M now (SetOtcTrade (Some R)) c)) = st_fee_currency R \<and>
   link (fst (step M now (SetOtcTrade (Some R)) c)) = st_link R \<and>
   notes_field (fst (step M now (SetOtcTrade (Some R)) c)) = st_notes R \<and>
   type_field (fst (step M now (SetOtcTrade (Some R)) c)) = st_trade_type R \<and>
   id_field (fst (step M now (SetOtcTrade (Some R)) c)) = st_trade_id R \<and>
   datetime (fst (step M now (SetOtcTrade (Some R)) c))
     = format_ms M OtcForm_format (st_timestamp R * 1000)"
  by (simp add: onTradeChange_def updateFields_def OtcForm_format_def)

text \<open>
  C2 (as stated). With \<open>editMode\<close> on, apply the scenario's record (identifier
  \<open>abc\<close>) and click Cancel: the form is still in edit mode, and a submit now carries
  the empty identifier, not the identifier of the record applied last.
\<close>

theorem submit_identifier_counterexample:
  "st_trade_id scenario_trade = ''abc'' \<and>
   editMode (fst (run (moment_local utc)
     [(0, SetOtcTrade (Some scenario_trade)), (1, ClickCancel)] (create True None))) \<and>
   tp_trade_id (payload (moment_local utc) 2 (fst (run (moment_local utc)
     [(0, SetOtcTrade (Some scenario_trade)), (1, ClickCancel)] (create True None))))
     = Some '''' \<and>
   tp_trade_id (payload (moment_local utc) 2 (fst (run (moment_local utc)
     [(0, SetOtcTrade (Some scenario_trade)), (1, ClickCancel)] (create True None))))
     \<noteq> Some ''abc''"
  by (simp add: scenario_trade_def create_def onTradeChange_def updateFields_def
      cancel_def resetFields_def payload_def)

text \<open>
  C2 (amended). In every state the payload carries an identifier exactly when
  \<open>editMode\<close> is on, and then it is the form's identifier field. After any sequence
  of actions from instantiation that field is the identifier of the record applied last
  (a record bound at instantiation is applied by the parent's first render after it),
  unless the fields were reset since (by \<open>cancel\<close> or a change to no record) or no
  record has been applied yet; then it is the empty string.
\<close>

theorem submit_identifier:
  assumes "c = fst (run M acts (create em tr))"
  shows "snd (addTrade M now s) = [Save (payload M now s)] \<and>
         (tp_trade_id (payload M now s) \<noteq> None \<longleftrightarrow> editMode s) \<and>
         (\<not> editMode s \<longrightarrow> tp_trade_id (payload M now s) = None) \<and>
         (editMode s \<longrightarrow> tp_trade_id (payload M now s) = Some (id_field s)) \<and>
         (editMode c \<longrightarrow> tp_trade_id (payload M now c) = Some (carried_id tr acts))"
  using run_id_field[of M acts em tr] assms by (simp add: addTrade_def payload_def)

theorem submit_identifier_witness:
  "carried_id None [(0, SetOtcTrade (Some scenario_trade)), (3, Input F_amount ''2'')]
     = ''abc'' \<and>
   tp_trade_id (payload (moment_local utc) 4 (fst (run (moment_local utc)
     [(0, SetOtcTrade (Some scenario_trade)), (3, Input F_amount ''2'')] (create True None))))
     = Some ''abc'' \<and>
   tp_trade_id (payload (moment_local utc) 4 (fst (run (moment_local utc)
     [(0, SetOtcTrade (Some scenario_trade)), (3, Input F_amount ''2'')] (create False None))))
     = None \<and>
   carried_id (Some scenario_trade) [(0, SetEditMode False), (1, SetEditMode True)] = ''abc'' \<and>
   tp_trade_id (payload (moment_local utc) 4 (fst (run (moment_local utc)
     [(0, SetEditMode False), (1, SetEditMode True)] (create True (Some scenario_trade)))))
     = Some ''abc''"
  using submit_identifier[where M = "moment_local utc" and em = True and tr = None
      and now = 4
      and acts = "[(0, SetOtcTrade (Some scenario_trade)), (3, Input F_amount ''2'')]"
      and s = "fst (run (moment_local utc)
         [(0, SetOtcTrade (Some scenario_trade)), (3, Input F_amount ''2'')] (create False None))",
      OF refl]
    submit_identifier[where M = "moment_local utc" and em = True
      and tr = "Some scenario_trade" and now = 4
      and acts = "[(0, SetEditMode False), (1, SetEditMode True)]"
      and s = "create False None", OF refl]
  by (simp add: carried_id_def scenario_trade_def create_def onTradeChange_def
      updateFields_def reapply_props_def)

text \<open>
  C3 (as stated). In UTC the scenario's record, applied in edit mode and submitted
  unchanged, does not come back with the timestamp 1600000000.
\<close>

theorem scenario_counterexample:
  "tp_timestamp (payload (moment_local utc) 1
     (fst (step (moment_local utc) 0 (SetOtcTrade (Some scenario_trade)) (create True None))))
   \<noteq> Some 1600000000"
  using parse_format_minute[of utc 1600000000 1]
  by (simp add: payload_def onTradeChange_def updateFields_def scenario_trade_def
      moment_local_def utc_plain)

text \<open>
  C3 (amended). In edit mode, applying the scenario's record populates every field from
  it, the date/time field being the formatted timestamp; submitting without further edits
  leaves the form unchanged and emits one \<open>save\<close> event whose payload has the record's
  identifier \<open>abc\<close>, the timestamp 1599999960 (1600000000 with its 40 seconds
  discarded), the location \<open>external\<close> and every other field as in the record. This
  holds in every ordinary zone whose offset during that minute is one whole number of
  minutes and which is not repeating that minute after a clock change, as is the case in
  every zone in use.
\<close>

theorem scenario_submit:
  assumes "editMode c"
    and "regular z" "offset_at z 1600000000 mod 60 = 0"
    and "offset_at z 1599999960 = offset_at z 1600000000" "\<not> repeats z 1599999960"
    and "c' = fst (step (moment_local z) now (SetOtcTrade (Some scenario_trade)) c)"
  shows "id_field c' = ''abc'' \<and> pair c' = ''BTC_EUR'' \<and> amount c' = ''1'' \<and>
         rate c' = ''9000'' \<and> fee c' = ''0'' \<and> feeCurrency c' = ''EUR'' \<and> link c' = '''' \<and>
         notes_field c' = '''' \<and> type_field c' = ''buy'' \<and>
         datetime c' = moment_format z ''DD/MM/YYYY HH:mm'' (1600000000 * 1000) \<and>
         addTrade (moment_local z) later c' =
           (c', [Save \<lparr> tp_amount = ''1'', tp_fee = ''0'', tp_fee_currency = ''EUR'',
                        tp_link = '''', tp_notes = '''', tp_pair = ''BTC_EUR'',
                        tp_rate = ''9000'', tp_location = ''external'',
                        tp_timestamp = Some 1599999960, tp_trade_type = ''buy'',
                        tp_trade_id = Some ''abc'' \<rparr>])"
proof -
  have "\<bar>offset_at z 1600000000\<bar> \<le> 86400"
    using regular_from_offset[of "base_offset z" "changes z" 1600000000] assms(2)
    unfolding offset_at_def regular_def by simp
  then have "- 62167219200 \<le> 1600000000 + offset_at z 1600000000"
    "1600000000 + offset_at z 1600000000 < 253402300800"
    by linarith+
  from parse_format_minute[OF assms(2,3) _ _ this, of later] assms(1,4,5,6) show ?thesis
    by (simp add: addTrade_def payload_def onTradeChange_def updateFields_def
        scenario_trade_def moment_local_def OtcForm_format_def)
qed

theorem scenario_submit_witness:
  "editMode (create True None) \<and>
   regular utc \<and> offset_at utc 1600000000 mod 60 = 0 \<and>
   datetime (fst (step (moment_local utc) 0 (SetOtcTrade (Some scenario_trade))
     (create True None))) = ''13/09/2020 12:26'' \<and>
   snd (addTrade (moment_local utc) 1
     (fst (step (moment_local utc) 0 (SetOtcTrade (Some scenario_trade)) (create True None))))
   = [Save \<lparr> tp_amount = ''1'', tp_fee = ''0'', tp_fee_currency = ''EUR'',
              tp_link = '''', tp_notes = '''', tp_pair = ''BTC_EUR'',
              tp_rate = ''9000'', tp_location = ''external'',
              tp_timestamp = Some 1599999960, tp_trade_type = ''buy'',
              tp_trade_id = Some ''abc'' \<rparr>] \<and>
   regular berlin_2020 \<and> offset_at berlin_2020 1600000000 mod 60 = 0 \<and>
   snd (addTrade (moment_local berlin_2020) 1
     (fst (step (moment_local berlin_2020) 0 (SetOtcTrade (Some scenario_trade))
       (create True None))))
   = [Save \<lparr> tp_amount = ''1'', tp_fee = ''0'', tp_fee_currency = ''EUR'',
              tp_link = '''', tp_notes = '''', tp_pair = ''BTC_EUR'',
              tp_rate = ''9000'', tp_location = ''external'',
              tp_timestamp = Some 1599999960, tp_trade_type = ''buy'',
              tp_trade_id = Some ''abc'' \<rparr>]"
  using scenario_submit[where c = "create True None" and z = utc and now = 0 and later = 1,
      OF _ _ _ _ _ refl]
    scenario_submit[where c = "create True None" and z = berlin_2020 and now = 0
      and later = 1, OF _ _ _ _ _ refl]
    format_scenario
  by (simp add: create_def OtcForm_format_def utc_plain berlin_2020_scenario)

text \<open>
  C4 (as stated). Three timestamps that do not come back. The first second of the year
  10000, read in UTC, is formatted with a five-digit year, of which the parser takes the
  first four digits: the string reads as the year 1000. 25 October 2020 01:30 UTC is
  02:30 in Berlin for the second time that night; the string is read as the first 02:30,
  an hour earlier. And 1 January 1890 00:00 UTC is 00:53:28 in Berlin, whose clock then
  ran 53 minutes and 28 seconds ahead of UTC; the string, read as 00:53:00 of that clock,
  is 28 seconds before the timestamp, which has no seconds to discard.
\<close>

theorem format_parse_counterexample:
  "format_ms (moment_local utc) OtcForm_format (253402300800 * 1000) = ''01/01/10000 00:00'' \<and>
   parse_unix (moment_local utc) 0
     (format_ms (moment_local utc) OtcForm_format (253402300800 * 1000)) OtcForm_format
     = Some (- 30610224000) \<and>
   parse_unix (moment_local utc) 0
     (format_ms (moment_local utc) OtcForm_format (253402300800 * 1000)) OtcForm_format
     \<noteq> Some (253402300800 - 253402300800 mod 60) \<and>
   regular berlin_2020 \<and> repeats berlin_2020 1603589400 \<and>
   format_ms (moment_local berlin_2020) OtcForm_format (1603589400 * 1000)
     = ''25/10/2020 02:30'' \<and>
   parse_unix (moment_local berlin_2020) 0
     (format_ms (moment_local berlin_2020) OtcForm_format (1603589400 * 1000)) OtcForm_format
     = Some (1603589400 - 3600) \<and>
   parse_unix (moment_local berlin_2020) 0
     (format_ms (moment_local berlin_2020) OtcForm_format (1603589400 * 1000)) OtcForm_format
     \<noteq> Some (1603589400 - 1603589400 mod 60) \<and>
   regular berlin_1890 \<and> offset_at berlin_1890 (- 2524521600) = 3208 \<and>
   format_ms (moment_local berlin_1890) OtcForm_format (- 2524521600 * 1000)
     = ''01/01/1890 00:53'' \<and>
   parse_unix (moment_local berlin_1890) 0
     (format_ms (moment_local berlin_1890) OtcForm_format (- 2524521600 * 1000)) OtcForm_format
     = Some (- 2524521600 - 28) \<and>
   parse_unix (moment_local berlin_1890) 0
     (format_ms (moment_local berlin_1890) OtcForm_format (- 2524521600 * 1000)) OtcForm_format
     \<noteq> Some (- 2524521600 - (- 2524521600) mod 60)"
  by (simp add: moment_local_def format_year_10000 parse_year_10000 format_repeated_hour
      parse_repeated_hour berlin_2020_scenario berlin_2020_repeated_hour
      berlin_1890_mean_time format_mean_time parse_mean_time)

text \<open>
  C4 (amended). Take an ordinary time zone: its offsets are at most a day and its clock
  changes lie further apart than they move the clock. Let \<open>T\<close> be a timestamp in seconds
  such that the zone's offset is a whole number of minutes at \<open>T\<close> and has been the same
  since the start of \<open>T\<close>'s minute, the local time of \<open>T\<close> lies in the years 0000 to
  9999, and \<open>T\<close>'s minute is not a local time shown for the second time after the clock
  was put back. Then formatting \<open>T * 1000\<close> milliseconds with \<open>DD/MM/YYYY HH:mm\<close> and
  parsing the string back under the same format gives \<open>T\<close> with its seconds discarded,
  whatever the clock reads when parsing.
\<close>

theorem format_parse_roundtrip:
  assumes "regular z" "offset_at z T mod 60 = 0"
    and "offset_at z (T - T mod 60) = offset_at z T" "\<not> repeats z (T - T mod 60)"
    and "- 62167219200 \<le> T + offset_at z T" "T + offset_at z T < 253402300800"
  shows "parse_unix (moment_local z) now
           (format_ms (moment_local z) OtcForm_format (T * 1000)) OtcForm_format
         = Some (T - T mod 60)"
  using parse_format_minute[OF assms] by (simp add: moment_local_def)

theorem format_parse_roundtrip_witness:
  "regular berlin_2020 \<and> offset_at berlin_2020 1600000000 = 7200 \<and>
   offset_at berlin_2020 (1600000000 - 1600000000 mod 60) = 7200 \<and>
   \<not> repeats berlin_2020 (1600000000 - 1600000000 mod 60) \<and>
   parse_unix (moment_local berlin_2020) 0
     (format_ms (moment_local berlin_2020) OtcForm_format (1600000000 * 1000)) OtcForm_format
     = Some 1599999960"
  using format_parse_roundtrip[of berlin_2020 1600000000 0]
  by (simp add: berlin_2020_scenario)

text \<open>
  C5 (as stated). A component created with the scenario's record bound to it does not
  show the record's pair.
\<close>

theorem create_counterexample:
  "bound_otcTrade (create True (Some scenario_trade)) = Some scenario_trade \<and>
   st_pair scenario_trade = ''BTC_EUR'' \<and>
   pair (create True (Some scenario_trade)) = '''' \<and>
   pair (create True (Some scenario_trade)) \<noteq> st_pair scenario_trade"
  by (simp add: create_def scenario_trade_def)

text \<open>
  C5 (amended). At instantiation every field takes its declared initial value (the empty
  string, direction \<open>buy\<close>) whether or not a record is injected, and the \<open>otcTrade\<close>
  prop itself is set to null by its initialiser. A record injected at instantiation
  reaches the fields at the parent's next render of the component: the prop is assigned
  the record again, the watcher runs, and every field is populated from the record.
\<close>

theorem create_defaults:
  "editMode (create em tr) = em \<and> bound_otcTrade (create em tr) = tr \<and>
   otcTrade (create em tr) = None \<and>
   id_field (create em tr) = '''' \<and> pair (create em tr) = '''' \<and>
   datetime (create em tr) = '''' \<and> amount (create em tr) = '''' \<and>
   rate (create em tr) = '''' \<and> fee (create em tr) = '''' \<and>
   feeCurrency (create em tr) = '''' \<and> link (create em tr) = '''' \<and>
   notes_field (create em tr) = '''' \<and> type_field (create em tr) = ''buy'' \<and>
   otcTrade (fst (step M now (SetEditMode b) (create em (Some R)))) = Some R \<and>
   id_field (fst (step M now (SetEditMode b) (create em (Some R)))) = st_trade_id R \<and>
   pair (fst (step M now (SetEditMode b) (create em (Some R)))) = st_pair R \<and>
   datetime (fst (step M now (SetEditMode b) (create em (Some R))))
     = format_ms M ''DD/MM/YYYY HH:mm'' (st_timestamp R * 1000) \<and>
   amount (fst (step M now (SetEditMode b) (create em (Some R)))) = st_amount R \<and>
   rate (fst (step M now (SetEditMode b) (create em (Some R)))) = st_rate R \<and>
   fee (fst (step M now (SetEditMode b) (create em (Some R)))) = st_fee R \<and>
   feeCurrency (fst (step M now (SetEditMode b) (create em (Some R)))) = st_fee_currency R \<and>
   link (fst (step M now (SetEditMode b) (create em (Some R)))) = st_link R \<and>
   notes_field (fst (step M now (SetEditMode b) (create em (Some R)))) = st_notes R \<and>
   type_field (fst (step M now (SetEditMode b) (create em (Some R)))) = st_trade_type R"
  by (simp add: create_def reapply_props_def onTradeChange_def updateFields_def
      OtcForm_format_def)

text \<open>
  C6 (as stated). A component created with no record has an empty date/time field, which
  is not the current moment in the display format.
\<close>

theorem absent_record_counterexample:
  "otcTrade (create False None) = None \<and>
   format_ms (moment_local utc) OtcForm_format 1600000000000 = ''13/09/2020 12:26'' \<and>
   datetime (create False None) \<noteq> format_ms (moment_local utc) OtcForm_format 1600000000000"
  by (simp add: create_def moment_local_def format_scenario)

text \<open>
  C6 (amended). Once the watcher has processed a change of the injected record to no
  record, every text field is empty, the direction is \<open>buy\<close> and the date/time field
  is the current moment in the display format. At instantiation with no record the text
  fields are empty and the direction is \<open>buy\<close> as well, but the date/time field is the
  empty string.
\<close>

theorem absent_record_resets:
  "id_field (fst (step M now (SetOtcTrade None) c)) = '''' \<and>
   pair (fst (step M now (SetOtcTrade None) c)) = '''' \<and>
   amount (fst (step M now (SetOtcTrade None) c)) = '''' \<and>
   rate (fst (step M now (SetOtcTrade None) c)) = '''' \<and>
   fee (fst (step M now (SetOtcTrade None) c)) = '''' \<and>
   feeCurrency (fst (step M now (SetOtcTrade None) c)) = '''' \<and>
   link (fst (step M now (SetOtcTrade None) c)) = '''' \<and>
   notes_field (fst (step M now (SetOtcTrade None) c)) = '''' \<and>
   type_field (fst (step M now (SetOtcTrade None) c)) = ''buy'' \<and>
   datetime (fst (step M now (SetOtcTrade None) c)) = format_ms M ''DD/MM/YYYY HH:mm'' now \<and>
   id_field (create em None) = '''' \<and> pair (create em None) = '''' \<and>
   amount (create em None) = '''' \<and> rate (create em None) = '''' \<and>
   fee (create em None) = '''' \<and> feeCurrency (create em None) = '''' \<and>
   link (create em None) = '''' \<and> notes_field (create em None) = '''' \<and>
   type_field (create em None) = ''buy'' \<and> datetime (create em None) = ''''"
  by (simp add: onTradeChange_def resetFields_def create_def OtcForm_format_def)

text \<open>
  C7 (as stated). The Cancel button names \<open>cancel\<close> as its click handler, so the method
  is called with the click's event, and the \<open>cancel\<close> event that goes out carries that
  event as its payload.
\<close>

theorem cancel_counterexample:
  "snd (step (moment_local utc) 0 ClickCancel (create True None)) = [Cancel [MouseEvent]] \<and>
   snd (step (moment_local utc) 0 ClickCancel (create True None)) \<noteq> [Cancel []]"
  by (simp add: cancel_def)

text \<open>
  C7 (amended). From any state, \<open>cancel\<close> leaves every field at its default (empty
  strings, direction \<open>buy\<close>, date/time the current moment in the display format),
  leaves the props alone, and emits exactly one event, \<open>cancel\<close>. The event carries the
  arguments \<open>cancel\<close> was called with: none when it is called as \<open>cancel()\<close>, and the
  click's event when the Cancel button calls it, which is how the template wires it.
\<close>

theorem cancel_resets:
  "snd (cancel M now args c) = [Cancel args] \<and>
   snd (cancel M now [] c) = [Cancel []] \<and>
   step M now ClickCancel c = cancel M now [MouseEvent] c \<and>
   id_field (fst (cancel M now args c)) = '''' \<and>
   pair (fst (cancel M now args c)) = '''' \<and>
   amount (fst (cancel M now args c)) = '''' \<and>
   rate (fst (cancel M now args c)) = '''' \<and>
   fee (fst (cancel M now args c)) = '''' \<and>
   feeCurrency (fst (cancel M now args c)) = '''' \<and>
   link (fst (cancel M now args c)) = '''' \<and>
   notes_field (fst (cancel M now args c)) = '''' \<and>
   type_field (fst (cancel M now args c)) = ''buy'' \<and>
   datetime (fst (cancel M now args c)) = format_ms M ''DD/MM/YYYY HH:mm'' now \<and>
   editMode (fst (cancel M now args c)) = editMode c \<and>
   bound_otcTrade (fst (cancel M now args c)) = bound_otcTrade c \<and>
   otcTrade (fst (cancel M now args c)) = otcTrade c"
  by (simp add: cancel_def resetFields_def OtcForm_format_def)

text \<open>
  C8. \<open>addTrade\<close> has no failing branch: in every state it emits one \<open>save\<close> event
  whose timestamp is the result of the conversion, whatever that is. When the date/time
  string does not parse, the invalid result is what the payload carries.
\<close>

theorem addTrade_passes_invalid_timestamp:
  "snd (addTrade M now c) = [Save (payload M now c)] \<and>
   tp_timestamp (payload M now c) = parse_unix M now (datetime c) OtcForm_format \<and>
   (parse_unix M now (datetime c) OtcForm_format = None \<longrightarrow>
      tp_timestamp (payload M now c) = None)"
  by (simp add: addTrade_def payload_def)

theorem addTrade_passes_invalid_timestamp_witness:
  "parse_unix (moment_local utc) 0 (datetime (create False None)) OtcForm_format = None \<and>
   snd (addTrade (moment_local utc) 0 (create False None))
     = [Save (payload (moment_local utc) 0 (create False None))] \<and>
   tp_timestamp (payload (moment_local utc) 0 (create False None)) = None"
  using addTrade_passes_invalid_timestamp[of "moment_local utc" 0 "create False None"]
  by (simp add: moment_local_def create_def parse_empty)

text \<open>
  C9. Submitting leaves the component as it was: \<open>addTrade\<close> emits one \<open>save\<close> event
  carrying the payload and changes no field.
\<close>

theorem addTrade_frame:
  "fst (addTrade M now c) = c \<and> snd (addTrade M now c) = [Save (payload M now c)]"
  by (simp add: addTrade_def)

text \<open>
  C10. The form starts with direction \<open>buy\<close>, a reset sets \<open>buy\<close>, populating
  copies the record's direction, and submitting changes nothing. So along every sequence
  of actions from instantiation in which the injected records and the radio group carry
  \<open>buy\<close> or \<open>sell\<close>, the direction field is \<open>buy\<close> or \<open>sell\<close>, and so is the
  direction of every payload emitted.
\<close>

theorem direction_buy_or_sell:
  assumes "\<forall>x \<in> set acts. wf_action (snd x)" "wf_bound tr"
  shows "type_field (create em tr) = ''buy'' \<and>
         type_field (resetFields M now c) = ''buy'' \<and>
         type_field (updateFields M R c) = st_trade_type R \<and>
         type_field (fst (addTrade M now c)) = type_field c \<and>
         is_trade_type (type_field (fst (run M acts (create em tr)))) \<and>
         (\<forall>p. Save p \<in> set (snd (run M acts (create em tr))) \<longrightarrow>
              is_trade_type (tp_trade_type p))"
proof -
  have "is_trade_type (type_field (create em tr))" "wf_bound (bound_otcTrade (create em tr))"
    using assms(2) by (simp_all add: create_def is_trade_type_def)
  from run_type_field[OF assms(1) this, of M] show ?thesis
    by (simp add: create_def resetFields_def updateFields_def addTrade_def)
qed

theorem direction_buy_or_sell_witness:
  "wf_action (SetOtcTrade (Some scenario_trade)) \<and> wf_action (Input F_type ''sell'') \<and>
   wf_action ClickSubmit \<and> wf_bound (Some scenario_trade) \<and>
   is_trade_type (type_field (fst (run (moment_local utc)
     [(0, SetOtcTrade (Some scenario_trade)), (5, Input F_type ''sell''), (9, ClickSubmit)]
     (create True (Some scenario_trade))))) \<and>
   list_all (\<lambda>e. case e of Save p \<Rightarrow> is_trade_type (tp_trade_type p) | Cancel args \<Rightarrow> True)
     (snd (run (moment_local utc)
       [(0, SetOtcTrade (Some scenario_trade)), (5, Input F_type ''sell''), (9, ClickSubmit)]
       (create True (Some scenario_trade))))"
  using direction_buy_or_sell[where
      acts = "[(0, SetOtcTrade (Some scenario_trade)), (5, Input F_type ''sell''),
               (9, ClickSubmit)]"
      and em = True and tr = "Some scenario_trade" and M = "moment_local utc" and now = 0
      and c = "create True None" and R = scenario_trade]
  by (simp add: is_trade_type_def scenario_trade_def addTrade_def payload_def
      onTradeChange_def updateFields_def create_def)

end
